theory Spec2Isabelle
  imports Complex_Main "HOL-Library.Sublist" "HOL-Library.Log_Nat" "HOL-Library.AList"
begin

section \<open>JavaScript values used by the server\<close>

text \<open>
  An optional string property (\<open>string | undefined\<close>) is a \<open>string option\<close>.
  JavaScript's truthiness test on it (\<open>if (x)\<close>, \<open>x && y\<close>, \<open>x || y\<close>) is false for
  \<open>undefined\<close> and for the empty string.
\<close>

definition truthy :: "string option \<Rightarrow> bool" where
  "truthy x = (case x of None \<Rightarrow> False | Some s \<Rightarrow> s \<noteq> [])"

text \<open>A template literal renders a missing property as the text \<open>undefined\<close>.\<close>

definition template :: "string option \<Rightarrow> string" where
  "template x = (case x of None \<Rightarrow> ''undefined'' | Some s \<Rightarrow> s)"

text \<open>\<open>String(n)\<close> for a non-negative integer: its decimal digits.\<close>

definition digit_char :: "nat \<Rightarrow> char" where
  "digit_char d = ''0123456789'' ! d"

function String_of_nat :: "nat \<Rightarrow> string" where
  "String_of_nat n =
     (if n < 10 then [digit_char n] else String_of_nat (n div 10) @ [digit_char (n mod 10)])"
  by pat_completeness auto
termination
  by (relation "measure id") auto

declare String_of_nat.simps [simp del]

text \<open>
  What a \<open>catch\<close> clause can receive. An \<open>AxiosError\<close> carries its message, the
  response when one was received (HTTP status and the two envelope fields the client
  reads from the body) and whether a request was sent. \<open>AxiosErrorNullBody\<close> is an
  \<open>AxiosError\<close> whose response has the body \<open>null\<close>, with its message and HTTP
  status. \<open>AxiosError\<close> extends \<open>Error\<close>.
  \<open>NonError s\<close> is any thrown value that is not an \<open>Error\<close>, with \<open>String(value) = s\<close>.
\<close>

record error_response =
  response_status :: nat
  data_error :: "string option"
  data_errorType :: "string option"

datatype js_error =
    AxiosError string "error_response option" bool
  | AxiosErrorNullBody string nat
  | Error string
  | NonError string

text \<open>\<open>error instanceof Error ? error.message : fallback\<close>\<close>

fun message_or :: "string \<Rightarrow> js_error \<Rightarrow> string" where
  "message_or fallback (AxiosError m r q) = m"
| "message_or fallback (AxiosErrorNullBody m code) = m"
| "message_or fallback (Error m) = m"
| "message_or fallback (NonError s) = fallback"

text \<open>\<open>error instanceof Error ? error.message : String(error)\<close>\<close>

fun message_or_String :: "js_error \<Rightarrow> string" where
  "message_or_String (AxiosError m r q) = m"
| "message_or_String (AxiosErrorNullBody m code) = m"
| "message_or_String (Error m) = m"
| "message_or_String (NonError s) = s"

section \<open>Configuration and the Backend Client\<close>

record Config =
  prometheusUrl :: string
  username :: "string option"
  password :: "string option"

record basic_auth =
  auth_username :: string
  auth_password :: string

record axios_config =
  baseURL :: string
  timeout :: nat
  auth :: "basic_auth option"

text \<open>
  A GET issued through the axios instance: the instance's base URL, timeout and
  credentials, with the path and query parameters of the call. The instance sends a
  basic-auth header exactly when its configuration has \<open>auth\<close>.
\<close>

record request =
  req_baseURL :: string
  req_timeout :: nat
  req_auth :: "basic_auth option"
  req_path :: string
  req_params :: "(string \<times> string) list"

record PrometheusClient =
  client :: axios_config
  config :: Config

definition new_PrometheusClient :: "Config \<Rightarrow> PrometheusClient" where
  "new_PrometheusClient cfg =
     (let axiosConfig = \<lparr> baseURL = prometheusUrl cfg, timeout = 30000, auth = None \<rparr>;
          axiosConfig' =
            (if truthy (username cfg) \<and> truthy (password cfg)
             then (case (username cfg, password cfg) of
                     (Some u, Some p) \<Rightarrow>
                       axiosConfig\<lparr> auth := Some \<lparr> auth_username = u, auth_password = p \<rparr> \<rparr>
                   | _ \<Rightarrow> axiosConfig)
             else axiosConfig)
      in \<lparr> client = axiosConfig', config = cfg \<rparr>)"

definition client_get :: "PrometheusClient \<Rightarrow> string \<Rightarrow> (string \<times> string) list \<Rightarrow> request" where
  "client_get c path params =
     \<lparr> req_baseURL = baseURL (client c), req_timeout = timeout (client c),
       req_auth = auth (client c), req_path = path, req_params = params \<rparr>"

text \<open>
  The backend's response envelope, and the outcome of awaiting one GET: the promise
  resolves with the HTTP status (2xx, by the axios default) and the parsed body, or it
  rejects with an error.
\<close>

record 'a PrometheusResponse =
  status :: string
  data :: 'a
  errorType :: "string option"
  error :: "string option"

datatype 'a get_outcome =
    Resolved nat "'a PrometheusResponse"
  | Rejected js_error

text \<open>
  \<open>handleError\<close> never returns: the value is what it throws. On a response with the
  body \<open>null\<close>, reading \<open>data.error\<close> throws a \<open>TypeError\<close>.
\<close>

fun handleError :: "PrometheusClient \<Rightarrow> js_error \<Rightarrow> js_error" where
  "handleError c (AxiosError m (Some r) q) =
     Error (''Prometheus API error: ''
            @ (if truthy (data_error r) then template (data_error r) else m)
            @ '' (''
            @ (if truthy (data_errorType r) then template (data_errorType r)
               else String_of_nat (response_status r))
            @ '')'')"
| "handleError c (AxiosErrorNullBody m code) =
     Error (''Cannot read properties of null (reading '' @ [CHR 0x27] @ ''error'' @ [CHR 0x27] @ '')'')"
| "handleError c (AxiosError m None True) =
     Error (''Cannot connect to Prometheus at '' @ prometheusUrl (config c) @ '': '' @ m)"
| "handleError c e = e"

text \<open>
  Every method but \<open>testConnection\<close> has the same body after its GET: a response whose
  envelope status is not \<open>success\<close> throws an \<open>Error\<close> with the method's own prefix,
  everything thrown in the \<open>try\<close> block goes through \<open>handleError\<close>, and a successful
  envelope is unwrapped by the method's projection.
\<close>

definition unwrap ::
  "PrometheusClient \<Rightarrow> string \<Rightarrow> ('a \<Rightarrow> 'b) \<Rightarrow> 'a get_outcome \<Rightarrow> js_error + 'b" where
  "unwrap c what proj outcome =
     (case outcome of
        Resolved code response \<Rightarrow>
          (if status response \<noteq> ''success''
           then Inl (handleError c (Error (what @ '': '' @ template (error response))))
           else Inr (proj (data response)))
      | Rejected e \<Rightarrow> Inl (handleError c e))"

definition queryInstant_request :: "PrometheusClient \<Rightarrow> string \<Rightarrow> string option \<Rightarrow> request" where
  "queryInstant_request c query time =
     client_get c ''/api/v1/query''
       ([(''query'', query)] @ (case time of Some t \<Rightarrow> (if t \<noteq> [] then [(''time'', t)] else []) | None \<Rightarrow> []))"

definition queryInstant_result :: "PrometheusClient \<Rightarrow> 'a get_outcome \<Rightarrow> js_error + 'a" where
  "queryInstant_result c = unwrap c ''Query failed'' id"

definition queryRange_request ::
  "PrometheusClient \<Rightarrow> string \<Rightarrow> string \<Rightarrow> string \<Rightarrow> string \<Rightarrow> request" where
  "queryRange_request c query start end step =
     client_get c ''/api/v1/query_range''
       [(''query'', query), (''start'', start), (''end'', end), (''step'', step)]"

definition queryRange_result :: "PrometheusClient \<Rightarrow> 'a get_outcome \<Rightarrow> js_error + 'a" where
  "queryRange_result c = unwrap c ''Query failed'' id"

definition getTargets_request :: "PrometheusClient \<Rightarrow> request" where
  "getTargets_request c = client_get c ''/api/v1/targets'' []"

definition getTargets_result :: "PrometheusClient \<Rightarrow> 'a get_outcome \<Rightarrow> js_error + 'a" where
  "getTargets_result c = unwrap c ''Failed to get targets'' id"

definition getMetrics_result :: "PrometheusClient \<Rightarrow> 'a get_outcome \<Rightarrow> js_error + 'a" where
  "getMetrics_result c = unwrap c ''Failed to get metrics'' id"

definition getMetricMetadata_result :: "PrometheusClient \<Rightarrow> 'a get_outcome \<Rightarrow> js_error + 'a" where
  "getMetricMetadata_result c = unwrap c ''Failed to get metadata'' id"

text \<open>\<open>getAlerts\<close> returns \<open>data.alerts\<close> and \<open>getConfig\<close> returns \<open>data.yaml\<close>.\<close>

definition getAlerts_result ::
  "PrometheusClient \<Rightarrow> ('a \<Rightarrow> 'b) \<Rightarrow> 'a get_outcome \<Rightarrow> js_error + 'b" where
  "getAlerts_result c alerts = unwrap c ''Failed to get alerts'' alerts"

definition getRules_result :: "PrometheusClient \<Rightarrow> 'a get_outcome \<Rightarrow> js_error + 'a" where
  "getRules_result c = unwrap c ''Failed to get rules'' id"

definition getLabelValues_result :: "PrometheusClient \<Rightarrow> 'a get_outcome \<Rightarrow> js_error + 'a" where
  "getLabelValues_result c = unwrap c ''Failed to get label values'' id"

definition getSeries_result :: "PrometheusClient \<Rightarrow> 'a get_outcome \<Rightarrow> js_error + 'a" where
  "getSeries_result c = unwrap c ''Failed to get series'' id"

definition getBuildInfo_result :: "PrometheusClient \<Rightarrow> 'a get_outcome \<Rightarrow> js_error + 'a" where
  "getBuildInfo_result c = unwrap c ''Failed to get build info'' id"

definition getRuntimeInfo_result :: "PrometheusClient \<Rightarrow> 'a get_outcome \<Rightarrow> js_error + 'a" where
  "getRuntimeInfo_result c = unwrap c ''Failed to get runtime info'' id"

definition getConfig_result ::
  "PrometheusClient \<Rightarrow> ('a \<Rightarrow> 'b) \<Rightarrow> 'a get_outcome \<Rightarrow> js_error + 'b" where
  "getConfig_result c yaml = unwrap c ''Failed to get config'' yaml"

definition getFlags_result :: "PrometheusClient \<Rightarrow> 'a get_outcome \<Rightarrow> js_error + 'a" where
  "getFlags_result c = unwrap c ''Failed to get flags'' id"

definition getTsdbStatus_result :: "PrometheusClient \<Rightarrow> 'a get_outcome \<Rightarrow> js_error + 'a" where
  "getTsdbStatus_result c = unwrap c ''Failed to get TSDB status'' id"

text \<open>
  \<open>testConnection\<close> awaits the build-info GET and, when that rejects, a GET of the
  query \<open>up\<close>. It never reads the envelope status: any resolved response counts as
  connected. When both reject, the first error goes through \<open>handleError\<close>.
  The version is \<open>response.data.data?.version\<close>.
\<close>

record connection_status =
  conn_status :: string
  conn_version :: "string option"

definition testConnection_result ::
  "PrometheusClient \<Rightarrow> ('a \<Rightarrow> string option) \<Rightarrow> 'a get_outcome \<Rightarrow> 'b get_outcome
     \<Rightarrow> js_error + connection_status" where
  "testConnection_result c version buildinfo fallback =
     (case buildinfo of
        Resolved code response \<Rightarrow>
          Inr \<lparr> conn_status = ''connected'', conn_version = version (data response) \<rparr>
      | Rejected e \<Rightarrow>
          (case fallback of
             Resolved code' response' \<Rightarrow> Inr \<lparr> conn_status = ''connected'', conn_version = None \<rparr>
           | Rejected e' \<Rightarrow> Inl (handleError c e)))"

section \<open>Dates\<close>

text \<open>
  \<open>Date.prototype.toISOString\<close> on a time value in milliseconds since the epoch, in UTC
  and the proleptic Gregorian calendar: \<open>YYYY-MM-DDTHH:mm:ss.sssZ\<close>, the year with a sign
  and six digits outside 0 to 9999.
\<close>

definition pad :: "nat \<Rightarrow> nat \<Rightarrow> string" where
  "pad width n = replicate (width - length (String_of_nat n)) (CHR ''0'') @ String_of_nat n"

definition civil_from_days :: "int \<Rightarrow> int \<times> nat \<times> nat" where
  "civil_from_days days =
     (let z = days + 719468;
          era = z div 146097;
          doe = z mod 146097;
          yoe = (doe - doe div 1460 + doe div 36524 - doe div 146096) div 365;
          doy = doe - (365 * yoe + yoe div 4 - yoe div 100);
          mp = (5 * doy + 2) div 153;
          d = doy - (153 * mp + 2) div 5 + 1;
          m = (if mp < 10 then mp + 3 else mp - 9);
          y = yoe + era * 400 + (if m \<le> 2 then 1 else 0)
      in (y, nat m, nat d))"

definition iso_year :: "int \<Rightarrow> string" where
  "iso_year y =
     (if 0 \<le> y \<and> y \<le> 9999 then pad 4 (nat y)
      else (if y < 0 then ''-'' else ''+'') @ pad 6 (nat \<bar>y\<bar>))"

definition iso_string :: "int \<Rightarrow> string" where
  "iso_string t =
     (let (y, m, d) = civil_from_days (t div 86400000);
          r = nat (t mod 86400000)
      in iso_year y @ ''-'' @ pad 2 m @ ''-'' @ pad 2 d @ ''T''
         @ pad 2 (r div 3600000) @ '':'' @ pad 2 (r div 60000 mod 60) @ '':''
         @ pad 2 (r div 1000 mod 60) @ ''.'' @ pad 3 (r mod 1000) @ ''Z'')"

text \<open>
  \<open>new Date(x).toISOString()\<close> for a number \<open>x\<close>: the constructor clips \<open>x\<close> to an
  integer toward zero, or to an invalid date when it is beyond 8.64e15 in magnitude,
  and \<open>toISOString\<close> throws a \<open>RangeError\<close> on an invalid date.
\<close>

definition Date_toISOString :: "real \<Rightarrow> js_error + string" where
  "Date_toISOString x =
     (if \<bar>x\<bar> \<le> 8640000000000000
      then Inr (iso_string (if 0 \<le> x then \<lfloor>x\<rfloor> else \<lceil>x\<rceil>))
      else Inl (Error ''Invalid time value''))"

section \<open>The backend and the clock as the handlers see them\<close>

record metric_sample =
  sample_metric :: "string \<rightharpoonup> string"
  sample_value :: "real \<times> string"

record InstantQueryResult =
  instant_resultType :: string
  instant_result :: "metric_sample list"

record metric_series =
  series_metric :: "string \<rightharpoonup> string"
  series_values :: "(real \<times> string) list"

record RangeQueryResult =
  range_resultType :: string
  range_result :: "metric_series list"

record Target =
  discoveredLabels :: "string \<rightharpoonup> string"
  labels :: "string \<rightharpoonup> string"
  scrapePool :: string
  scrapeUrl :: string
  globalUrl :: string
  lastError :: "string option"
  lastScrape :: string
  lastScrapeDuration :: real
  health :: string
  scrapeInterval :: string
  scrapeTimeout :: string

record TargetsResponse =
  activeTargets :: "Target list"
  droppedTargets :: "(string \<rightharpoonup> string) list"

text \<open>
  The world outside the process: what the backend answers to a GET, given the requests
  it has received before, kept per endpoint with the type of its data; the requests
  sent so far; and the successive readings of the system clock in milliseconds.
\<close>

record world =
  instant_api :: "request list \<Rightarrow> request \<Rightarrow> InstantQueryResult get_outcome"
  range_api :: "request list \<Rightarrow> request \<Rightarrow> RangeQueryResult get_outcome"
  targets_api :: "request list \<Rightarrow> request \<Rightarrow> TargetsResponse get_outcome"
  requests :: "request list"
  clock :: "nat \<Rightarrow> int"
  clock_reads :: nat

definition Date_now :: "world \<Rightarrow> int \<times> world" where
  "Date_now w = (clock w (clock_reads w), w\<lparr> clock_reads := Suc (clock_reads w) \<rparr>)"

definition send :: "request \<Rightarrow> world \<Rightarrow> world" where
  "send r w = w\<lparr> requests := requests w @ [r] \<rparr>"

definition queryInstant ::
  "PrometheusClient \<Rightarrow> string \<Rightarrow> string option \<Rightarrow> world
     \<Rightarrow> (js_error + InstantQueryResult) \<times> world" where
  "queryInstant c query time w =
     (let r = queryInstant_request c query time
      in (queryInstant_result c (instant_api w (requests w) r), send r w))"

definition queryRange ::
  "PrometheusClient \<Rightarrow> string \<Rightarrow> string \<Rightarrow> string \<Rightarrow> string \<Rightarrow> world
     \<Rightarrow> (js_error + RangeQueryResult) \<times> world" where
  "queryRange c query start end step w =
     (let r = queryRange_request c query start end step
      in (queryRange_result c (range_api w (requests w) r), send r w))"

definition getTargets ::
  "PrometheusClient \<Rightarrow> world \<Rightarrow> (js_error + TargetsResponse) \<times> world" where
  "getTargets c w =
     (let r = getTargets_request c
      in (getTargets_result c (targets_api w (requests w) r), send r w))"

section \<open>Tool arguments and their schemas\<close>

text \<open>
  The raw arguments of a tool call are a JSON object, or missing. A schema's
  \<open>safeParse\<close> gives the validated, defaulted arguments or an error whose message
  lists the issues; the text of that message is the schema library's, a parameter here.
\<close>

datatype json =
    JNull
  | JBool bool
  | JNumber real
  | JString string
  | JArray "json list"
  | JObject "(string \<times> json) list"

type_synonym raw_args = "(string \<rightharpoonup> json) option"

record zod_issue =
  issue_code :: string
  issue_path :: string

datatype 'a safe_parse = ParseSuccess 'a | ParseFailure string

text \<open>\<open>z.string().optional()\<close> on one property of the object.\<close>

definition optional_string :: "(string \<rightharpoonup> json) \<Rightarrow> string \<Rightarrow> zod_issue list + string option" where
  "optional_string obj key =
     (case obj key of
        None \<Rightarrow> Inr None
      | Some (JString s) \<Rightarrow> Inr (Some s)
      | Some _ \<Rightarrow> Inl [\<lparr> issue_code = ''invalid_type'', issue_path = key \<rparr>])"

text \<open>\<open>z.enum(values).optional().default(d)\<close> on one property of the object.\<close>

definition optional_enum_default ::
  "string list \<Rightarrow> string \<Rightarrow> (string \<rightharpoonup> json) \<Rightarrow> string \<Rightarrow> zod_issue list + string option" where
  "optional_enum_default values d obj key =
     (case obj key of
        None \<Rightarrow> Inr (Some d)
      | Some (JString s) \<Rightarrow>
          (if s \<in> set values then Inr (Some s)
           else Inl [\<lparr> issue_code = ''invalid_enum_value'', issue_path = key \<rparr>])
      | Some _ \<Rightarrow> Inl [\<lparr> issue_code = ''invalid_type'', issue_path = key \<rparr>])"

definition issues_of :: "zod_issue list + 'a \<Rightarrow> zod_issue list" where
  "issues_of r = (case r of Inl is \<Rightarrow> is | Inr v \<Rightarrow> [])"

section \<open>Health tools\<close>

record target_summary =
  total :: nat
  up :: nat
  down :: nat
  unknown :: nat
  dropped :: nat

record target_row =
  row_job :: "string option"
  row_instance :: "string option"
  row_health :: string
  row_lastScrape :: string
  row_lastScrapeDuration :: real
  row_lastError :: "string option"
  row_scrapeUrl :: string

record list_targets_result =
  summary :: target_summary
  listed_targets :: "target_row list"

record list_targets_args =
  arg_health :: "string option"

text \<open>\<open>x || null\<close>\<close>

definition or_null :: "string option \<Rightarrow> string option" where
  "or_null x = (if truthy x then x else None)"

definition list_targets_schema ::
  "(zod_issue list \<Rightarrow> string) \<Rightarrow> raw_args \<Rightarrow> list_targets_args safe_parse" where
  "list_targets_schema message raw =
     (case raw of
        None \<Rightarrow> ParseFailure (message [\<lparr> issue_code = ''invalid_type'', issue_path = [] \<rparr>])
      | Some obj \<Rightarrow>
          (case optional_enum_default [''up'', ''down'', ''unknown'', ''all''] ''all'' obj ''health'' of
             Inr h \<Rightarrow> ParseSuccess \<lparr> arg_health = h \<rparr>
           | Inl is \<Rightarrow> ParseFailure (message is)))"

definition target_row_of :: "Target \<Rightarrow> target_row" where
  "target_row_of t =
     \<lparr> row_job = labels t ''job'', row_instance = labels t ''instance'', row_health = health t,
       row_lastScrape = lastScrape t, row_lastScrapeDuration = lastScrapeDuration t,
       row_lastError = or_null (lastError t), row_scrapeUrl = scrapeUrl t \<rparr>"

definition list_targets_handler ::
  "PrometheusClient \<Rightarrow> list_targets_args \<Rightarrow> world \<Rightarrow> (js_error + list_targets_result) \<times> world" where
  "list_targets_handler c args w =
     (case getTargets c w of
        (Inl e, w') \<Rightarrow> (Inl e, w')
      | (Inr targets, w') \<Rightarrow>
          (let active =
                 (if truthy (arg_health args) \<and> arg_health args \<noteq> Some ''all''
                  then filter (\<lambda>t. Some (health t) = arg_health args) (activeTargets targets)
                  else activeTargets targets)
           in (Inr \<lparr> summary =
                       \<lparr> total = length (activeTargets targets),
                         up = length (filter (\<lambda>t. health t = ''up'') (activeTargets targets)),
                         down = length (filter (\<lambda>t. health t = ''down'') (activeTargets targets)),
                         unknown = length (filter (\<lambda>t. health t = ''unknown'') (activeTargets targets)),
                         dropped = length (droppedTargets targets) \<rparr>,
                     listed_targets = map target_row_of active \<rparr>, w')))"

record target_health_args =
  arg_job :: "string option"
  arg_instance :: "string option"

record target_detail =
  detail_job :: "string option"
  detail_instance :: "string option"
  detail_health :: string
  detail_lastScrape :: string
  detail_lastScrapeDuration :: real
  detail_lastError :: "string option"
  detail_scrapeUrl :: string
  detail_scrapeInterval :: string
  detail_labels :: "string \<rightharpoonup> string"

text \<open>\<open>{found: false, message}\<close> or \<open>{found: true, targets}\<close>\<close>

datatype target_health_result =
    NotFound string
  | Found "target_detail list"

definition get_target_health_schema ::
  "(zod_issue list \<Rightarrow> string) \<Rightarrow> raw_args \<Rightarrow> target_health_args safe_parse" where
  "get_target_health_schema message raw =
     (case raw of
        None \<Rightarrow> ParseFailure (message [\<lparr> issue_code = ''invalid_type'', issue_path = [] \<rparr>])
      | Some obj \<Rightarrow>
          (case (optional_string obj ''job'', optional_string obj ''instance'') of
             (Inr j, Inr i) \<Rightarrow> ParseSuccess \<lparr> arg_job = j, arg_instance = i \<rparr>
           | (j, i) \<Rightarrow> ParseFailure (message (issues_of j @ issues_of i))))"

definition target_detail_of :: "Target \<Rightarrow> target_detail" where
  "target_detail_of t =
     \<lparr> detail_job = labels t ''job'', detail_instance = labels t ''instance'',
       detail_health = health t, detail_lastScrape = lastScrape t,
       detail_lastScrapeDuration = lastScrapeDuration t,
       detail_lastError = or_null (lastError t), detail_scrapeUrl = scrapeUrl t,
       detail_scrapeInterval = scrapeInterval t, detail_labels = labels t \<rparr>"

text \<open>The filter callback of \<open>get_target_health\<close>.\<close>

definition target_selected :: "target_health_args \<Rightarrow> Target \<Rightarrow> bool" where
  "target_selected args t =
     (if truthy (arg_job args) \<and> labels t ''job'' \<noteq> arg_job args then False
      else if truthy (arg_instance args) \<and> labels t ''instance'' \<noteq> arg_instance args then False
      else True)"

definition get_target_health_handler ::
  "PrometheusClient \<Rightarrow> target_health_args \<Rightarrow> world \<Rightarrow> (js_error + target_health_result) \<times> world" where
  "get_target_health_handler c args w =
     (if \<not> truthy (arg_job args) \<and> \<not> truthy (arg_instance args)
      then (Inl (Error ''At least one of job or instance must be specified''), w)
      else (case getTargets c w of
              (Inl e, w') \<Rightarrow> (Inl e, w')
            | (Inr targets, w') \<Rightarrow>
                (let filtered = filter (target_selected args) (activeTargets targets)
                 in if length filtered = 0
                    then (Inr (NotFound ''No matching targets found''), w')
                    else (Inr (Found (map target_detail_of filtered)), w'))))"

section \<open>The dispatcher\<close>

text \<open>
  A catalog entry. The catalog \<open>allTools\<close> is an object literal: a finite map from its
  own keys to entries, each with a description, a schema and a handler. The handler
  runs against the world and either throws or returns its result.
\<close>

record ('args, 'res, 'w) tool =
  description :: string
  inputSchema :: "raw_args \<Rightarrow> 'args safe_parse"
  handler :: "PrometheusClient \<Rightarrow> 'args \<Rightarrow> 'w \<Rightarrow> (js_error + 'res) \<times> 'w"

text \<open>
  \<open>name in allTools\<close> also holds for the properties every object inherits from
  \<open>Object.prototype\<close>. The value found under such a name has neither \<open>inputSchema\<close>
  nor \<open>handler\<close>, so the schema step is skipped and calling \<open>tool.handler\<close> throws a
  \<open>TypeError\<close> inside the \<open>try\<close> block.
\<close>

definition Object_prototype_keys :: "string list" where
  "Object_prototype_keys =
     [''constructor'', ''__defineGetter__'', ''__defineSetter__'', ''hasOwnProperty'',
      ''__lookupGetter__'', ''__lookupSetter__'', ''isPrototypeOf'', ''propertyIsEnumerable'',
      ''toString'', ''valueOf'', ''__proto__'', ''toLocaleString'']"

definition has_property :: "(string \<rightharpoonup> 'a) \<Rightarrow> string \<Rightarrow> bool" where
  "has_property obj name = (name \<in> dom obj \<or> name \<in> set Object_prototype_keys)"

record tool_response =
  content_text :: string
  isError :: bool

definition error_response :: "string \<Rightarrow> tool_response" where
  "error_response text = \<lparr> content_text = text, isError = True \<rparr>"

text \<open>
  The handler registered for \<open>CallToolRequestSchema\<close>. \<open>stringify\<close> is
  \<open>JSON.stringify(result, null, 2)\<close>.
\<close>

definition call_tool ::
  "(string \<rightharpoonup> ('args, 'res, 'w) tool) \<Rightarrow> ('res \<Rightarrow> string) \<Rightarrow> PrometheusClient
     \<Rightarrow> string \<Rightarrow> raw_args \<Rightarrow> 'w \<Rightarrow> tool_response \<times> 'w" where
  "call_tool allTools stringify prometheusClient name args w =
     (if \<not> has_property allTools name
      then (error_response (''Unknown tool: '' @ name), w)
      else
        (case allTools name of
           None \<Rightarrow>
             (error_response
                (''Error executing '' @ name @ '': ''
                 @ message_or_String (Error ''tool.handler is not a function'')), w)
         | Some tool \<Rightarrow>
             (case inputSchema tool args of
                ParseFailure m \<Rightarrow> (error_response (''Invalid arguments: '' @ m), w)
              | ParseSuccess validatedArgs \<Rightarrow>
                  (case handler tool prometheusClient validatedArgs w of
                     (Inr result, w') \<Rightarrow>
                       (\<lparr> content_text = stringify result, isError = False \<rparr>, w')
                   | (Inl e, w') \<Rightarrow>
                       (error_response
                          (''Error executing '' @ name @ '': '' @ message_or_String e), w')))))"

section \<open>Relative time expressions\<close>

text \<open>
  The range-query handler and the alert-history handler each parse a relative duration
  inline, with the same regular expression \<open>/^(\d+)([smhdw])$/\<close>, \<open>parseInt\<close> and
  the same table of multipliers. \<open>relative_match\<close> is the match of that expression:
  the digits and the unit letter, or no match.
\<close>

definition is_digit :: "char \<Rightarrow> bool" where
  "is_digit ch = (ch \<in> set ''0123456789'')"

definition is_unit :: "char \<Rightarrow> bool" where
  "is_unit ch = (ch \<in> set ''smhdw'')"

definition relative_match :: "string \<Rightarrow> (string \<times> char) option" where
  "relative_match s =
     (if s \<noteq> [] \<and> butlast s \<noteq> [] \<and> list_all is_digit (butlast s) \<and> is_unit (last s)
      then Some (butlast s, last s) else None)"

text \<open>\<open>parseInt\<close> on a string of decimal digits.\<close>

definition digit_value :: "char \<Rightarrow> int" where
  "digit_value ch = int (of_char ch) - 48"

definition parseInt :: "string \<Rightarrow> int" where
  "parseInt ds = foldl (\<lambda>n ch. 10 * n + digit_value ch) 0 ds"

definition multipliers :: "char \<rightharpoonup> int" where
  "multipliers =
     [CHR ''s'' \<mapsto> 1000,
      CHR ''m'' \<mapsto> 60 * 1000,
      CHR ''h'' \<mapsto> 60 * 60 * 1000,
      CHR ''d'' \<mapsto> 24 * 60 * 60 * 1000,
      CHR ''w'' \<mapsto> 7 * 24 * 60 * 60 * 1000]"

text \<open>
  \<open>parseInt(match[1]) * multipliers[match[2]]\<close>. A letter outside the table would give
  \<open>NaN\<close>, written \<open>None\<close>. The numbers of the source are doubles: the product is the exact
  integer up to \<open>2^53\<close>, and beyond that \<open>Date.now() - ms\<close> is out of the range of dates
  for the double as for the integer, so both throw the same \<open>RangeError\<close>.
\<close>

definition relative_ms :: "string \<times> char \<Rightarrow> int option" where
  "relative_ms m =
     (let value = parseInt (fst m); unit = snd m
      in case multipliers unit of None \<Rightarrow> None | Some k \<Rightarrow> Some (value * k))"

text \<open>\<open>new Date(Date.now() - ms).toISOString()\<close>\<close>

definition ago :: "int option \<Rightarrow> world \<Rightarrow> (js_error + string) \<times> world" where
  "ago ms w =
     (let (now, w') = Date_now w
      in case ms of
           None \<Rightarrow> (Inl (Error ''Invalid time value''), w')
         | Some d \<Rightarrow> (Date_toISOString (real_of_int (now - d)), w'))"

text \<open>\<open>new Date().toISOString()\<close>\<close>

definition now_iso :: "world \<Rightarrow> string \<times> world" where
  "now_iso w = (let (now, w') = Date_now w in (iso_string now, w'))"

text \<open>\<open>x || d\<close>\<close>

definition or_default :: "string option \<Rightarrow> string \<Rightarrow> string" where
  "or_default x d = (if truthy x then template x else d)"

text \<open>\<open>Array.prototype.map\<close> with a callback that may throw: the first throw ends it.\<close>

fun map_throwing :: "('a \<Rightarrow> js_error + 'b) \<Rightarrow> 'a list \<Rightarrow> js_error + 'b list" where
  "map_throwing f [] = Inr []"
| "map_throwing f (x # xs) =
     (case f x of
        Inl e \<Rightarrow> Inl e
      | Inr y \<Rightarrow> (case map_throwing f xs of Inl e \<Rightarrow> Inl e | Inr ys \<Rightarrow> Inr (y # ys)))"

record time_range =
  range_start :: string
  range_end :: string
  range_step :: string

section \<open>Alert history\<close>

record alert_history_args =
  arg_alertname :: "string option"
  arg_timeRange :: "string option"

record alert_history_row =
  alert_alertname :: "string option"
  alert_severity :: "string option"
  alert_instance :: "string option"
  alert_job :: "string option"
  stateChanges :: nat
  firstSeen :: "string option"
  lastSeen :: "string option"
  alert_labels :: "string \<rightharpoonup> string"

record alert_history_result =
  history_timeRange :: time_range
  alertCount :: nat
  alerts :: "alert_history_row list"

definition invalid_time_range :: string where
  \<open>invalid_time_range = ''Invalid time range format. Use formats like "1h", "24h", "7d"''\<close>

text \<open>The step of the range query, from the lookback in milliseconds.\<close>

definition history_step :: "int \<Rightarrow> string" where
  "history_step ms =
     (let step = ''1m'';
          step = (if ms > 24 * 60 * 60 * 1000 then ''5m'' else step);
          step = (if ms > 7 * 24 * 60 * 60 * 1000 then ''15m'' else step)
      in step)"

definition alert_history_row_of :: "metric_series \<Rightarrow> js_error + alert_history_row" where
  "alert_history_row_of r =
     (let vs = series_values r;
          first = (if length vs > 0 then map_sum id Some (Date_toISOString (fst (hd vs) * 1000))
                   else Inr None);
          final = (if length vs > 0 then map_sum id Some (Date_toISOString (fst (last vs) * 1000))
                   else Inr None)
      in case first of
           Inl e \<Rightarrow> Inl e
         | Inr f \<Rightarrow>
             (case final of
                Inl e \<Rightarrow> Inl e
              | Inr l \<Rightarrow>
                  Inr \<lparr> alert_alertname = series_metric r ''alertname'',
                        alert_severity = series_metric r ''severity'',
                        alert_instance = series_metric r ''instance'',
                        alert_job = series_metric r ''job'',
                        stateChanges = length vs,
                        firstSeen = f, lastSeen = l,
                        alert_labels = series_metric r \<rparr>))"

definition get_alert_history_handler ::
  "PrometheusClient \<Rightarrow> alert_history_args \<Rightarrow> world \<Rightarrow> (js_error + alert_history_result) \<times> world" where
  \<open>get_alert_history_handler c args w =
     (let range = or_default (arg_timeRange args) ''1h''
      in case relative_match range of
           None \<Rightarrow> (Inl (Error invalid_time_range), w)
         | Some m \<Rightarrow>
             (let ms = relative_ms m
              in case ago ms w of
                   (Inl e, w1) \<Rightarrow> (Inl e, w1)
                 | (Inr start, w1) \<Rightarrow>
                     (let (end, w2) = now_iso w1;
                          query = (if truthy (arg_alertname args)
                                   then ''ALERTS{alertname="'' @ template (arg_alertname args) @ ''"}''
                                   else ''ALERTS'');
                          step = history_step (case ms of Some d \<Rightarrow> d | None \<Rightarrow> 0)
                            \<comment> \<open>after a \<open>NaN\<close> the line above has thrown\<close>
                      in case queryRange c query start end step w2 of
                           (Inl e, w3) \<Rightarrow> (Inl e, w3)
                         | (Inr result, w3) \<Rightarrow>
                             (case map_throwing alert_history_row_of (range_result result) of
                                Inl e \<Rightarrow> (Inl e, w3)
                              | Inr rows \<Rightarrow>
                                  (Inr \<lparr> history_timeRange =
                                           \<lparr> range_start = start, range_end = end, range_step = step \<rparr>,
                                         alertCount = length (range_result result),
                                         alerts = rows \<rparr>, w3)))))\<close>

section \<open>Query tools\<close>









record node_exporter_args =
  arg_instance_name :: string
  arg_metric :: string
  arg_range :: "string option"

record sample_row =
  row_labels :: "string \<rightharpoonup> string"
  row_value :: string

text \<open>The value stored under a sub-query's name: its rows, or \<open>{error: message}\<close>.\<close>

datatype sub_result =
    Rows "sample_row list"
  | ErrorObject string

record node_exporter_result =
  ne_instance :: string
  ne_timeRange :: string
  metrics :: "(string \<times> sub_result) list"

text \<open>
  The sub-queries of \<open>query_node_exporter\<close>, an object filled by assignments and read
  back with \<open>Object.entries\<close>: an association list in insertion order.
\<close>

text \<open>\<open>obj[key] = value\<close> on an object kept as an association list.\<close>

definition assign :: "(string \<times> 'a) list \<Rightarrow> string \<Rightarrow> 'a \<Rightarrow> (string \<times> 'a) list" where
  "assign obj key v = AList.update key v obj"

definition node_queries :: "string \<Rightarrow> string \<Rightarrow> string \<Rightarrow> (string \<times> string) list" where
  \<open>node_queries metric instance timeRange =
     (let queries = [];
          queries = (if metric = ''cpu'' \<or> metric = ''all'' then
            (let queries = assign queries ''cpuUsagePercent''
                   (''100 - (avg by (instance) (rate(node_cpu_seconds_total{instance="'' @ instance @ ''",mode="idle"}['' @ timeRange @ ''])) * 100)'');
                 queries = assign queries ''cpuUserPercent''
                   (''avg by (instance) (rate(node_cpu_seconds_total{instance="'' @ instance @ ''",mode="user"}['' @ timeRange @ ''])) * 100'');
                 queries = assign queries ''cpuSystemPercent''
                   (''avg by (instance) (rate(node_cpu_seconds_total{instance="'' @ instance @ ''",mode="system"}['' @ timeRange @ ''])) * 100'');
                 queries = assign queries ''cpuIowaitPercent''
                   (''avg by (instance) (rate(node_cpu_seconds_total{instance="'' @ instance @ ''",mode="iowait"}['' @ timeRange @ ''])) * 100'')
             in queries)
            else queries);
          queries = (if metric = ''memory'' \<or> metric = ''all'' then
            (let queries = assign queries ''memoryTotalBytes''
                   (''node_memory_MemTotal_bytes{instance="'' @ instance @ ''"}'');
                 queries = assign queries ''memoryAvailableBytes''
                   (''node_memory_MemAvailable_bytes{instance="'' @ instance @ ''"}'');
                 queries = assign queries ''memoryUsedPercent''
                   (''100 - (node_memory_MemAvailable_bytes{instance="'' @ instance @ ''"} / node_memory_MemTotal_bytes{instance="'' @ instance @ ''"} * 100)'');
                 queries = assign queries ''swapUsedPercent''
                   (''100 - (node_memory_SwapFree_bytes{instance="'' @ instance @ ''"} / node_memory_SwapTotal_bytes{instance="'' @ instance @ ''"} * 100)'')
             in queries)
            else queries);
          queries = (if metric = ''disk'' \<or> metric = ''all'' then
            (let queries = assign queries ''diskReadBytesPerSec''
                   (''rate(node_disk_read_bytes_total{instance="'' @ instance @ ''"}['' @ timeRange @ ''])'');
                 queries = assign queries ''diskWriteBytesPerSec''
                   (''rate(node_disk_written_bytes_total{instance="'' @ instance @ ''"}['' @ timeRange @ ''])'');
                 queries = assign queries ''diskIOUtilization''
                   (''rate(node_disk_io_time_seconds_total{instance="'' @ instance @ ''"}['' @ timeRange @ '']) * 100'')
             in queries)
            else queries);
          queries = (if metric = ''filesystem'' \<or> metric = ''all'' then
            (let queries = assign queries ''filesystemUsedPercent''
                   (''100 - (node_filesystem_avail_bytes{instance="'' @ instance @ ''",fstype!~"tmpfs|overlay"} / node_filesystem_size_bytes{instance="'' @ instance @ ''",fstype!~"tmpfs|overlay"} * 100)'');
                 queries = assign queries ''filesystemAvailableBytes''
                   (''node_filesystem_avail_bytes{instance="'' @ instance @ ''",fstype!~"tmpfs|overlay"}'')
             in queries)
            else queries);
          queries = (if metric = ''network'' \<or> metric = ''all'' then
            (let queries = assign queries ''networkReceiveBytesPerSec''
                   (''rate(node_network_receive_bytes_total{instance="'' @ instance @ ''",device!~"lo|veth.*|docker.*|br-.*"}['' @ timeRange @ ''])'');
                 queries = assign queries ''networkTransmitBytesPerSec''
                   (''rate(node_network_transmit_bytes_total{instance="'' @ instance @ ''",device!~"lo|veth.*|docker.*|br-.*"}['' @ timeRange @ ''])'');
                 queries = assign queries ''networkReceiveErrors''
                   (''rate(node_network_receive_errs_total{instance="'' @ instance @ ''"}['' @ timeRange @ ''])'');
                 queries = assign queries ''networkTransmitErrors''
                   (''rate(node_network_transmit_errs_total{instance="'' @ instance @ ''"}['' @ timeRange @ ''])'')
             in queries)
            else queries);
          queries = (if metric = ''load'' \<or> metric = ''all'' then
            (let queries = assign queries ''load1''
                   (''node_load1{instance="'' @ instance @ ''"}'');
                 queries = assign queries ''load5''
                   (''node_load5{instance="'' @ instance @ ''"}'');
                 queries = assign queries ''load15''
                   (''node_load15{instance="'' @ instance @ ''"}'');
                 queries = assign queries ''cpuCount''
                   (''count(node_cpu_seconds_total{instance="'' @ instance @ ''",mode="idle"})'')
             in queries)
            else queries)
      in queries)\<close>

definition sample_row_of :: "metric_sample \<Rightarrow> sample_row" where
  "sample_row_of r = \<lparr> row_labels = sample_metric r, row_value = snd (sample_value r) \<rparr>"

text \<open>What one sub-query leaves under its name, from the outcome of its instant query.\<close>

definition sub_result_of :: "js_error + InstantQueryResult \<Rightarrow> sub_result" where
  "sub_result_of outcome =
     (case outcome of
        Inr result \<Rightarrow> Rows (map sample_row_of (instant_result result))
      | Inl e \<Rightarrow> ErrorObject (message_or ''Query failed'' e))"

text \<open>The loop over the sub-queries, each in its own \<open>try\<close>.\<close>

fun run_queries ::
  "PrometheusClient \<Rightarrow> (string \<times> string) list \<Rightarrow> (string \<times> sub_result) list \<Rightarrow> world
     \<Rightarrow> (string \<times> sub_result) list \<times> world" where
  "run_queries c [] results w = (results, w)"
| "run_queries c ((name, query) # rest) results w =
     (case queryInstant c query None w of
        (outcome, w') \<Rightarrow>
          run_queries c rest (assign results name (sub_result_of outcome)) w')"

definition query_node_exporter_handler ::
  "PrometheusClient \<Rightarrow> node_exporter_args \<Rightarrow> world \<Rightarrow> (js_error + node_exporter_result) \<times> world" where
  "query_node_exporter_handler c args w =
     (let instance = arg_instance_name args;
          range = or_default (arg_range args) ''5m'';
          queries = node_queries (arg_metric args) instance range;
          (results, w') = run_queries c queries [] w
      in (Inr \<lparr> ne_instance = instance, ne_timeRange = range, metrics = results \<rparr>, w'))"

section \<open>Byte sizes\<close>

text \<open>
  The numbers of \<open>formatBytes\<close> are doubles. \<open>round_double\<close> rounds a real number
  to the nearest double, a tie to the even significand, for magnitudes in the normal
  range: 53 significant bits, the unit in the last place taken from the binade of the
  number. A double is a real number that \<open>round_double\<close> leaves as it is, and an
  arithmetic operation on doubles is the exact operation followed by \<open>round_double\<close>.
\<close>

definition round_half_even :: "real \<Rightarrow> int" where
  "round_half_even y =
     (let f = \<lfloor>y\<rfloor>
      in if y - of_int f < 1 / 2 then f
         else if 1 / 2 < y - of_int f then f + 1
         else if even f then f else f + 1)"






section \<open>The catalog entries of the health tools, and a sample deployment\<close>

definition list_targets_tool ::
  "(zod_issue list \<Rightarrow> string) \<Rightarrow> (list_targets_args, list_targets_result, world) tool" where
  "list_targets_tool message =
     \<lparr> description = ''List all scrape targets and their health status (up/down)'',
       inputSchema = list_targets_schema message,
       handler = list_targets_handler \<rparr>"

definition get_target_health_tool ::
  "(zod_issue list \<Rightarrow> string) \<Rightarrow> (target_health_args, target_health_result, world) tool" where
  "get_target_health_tool message =
     \<lparr> description = ''Get health status of a specific target by job name and/or instance'',
       inputSchema = get_target_health_schema message,
       handler = get_target_health_handler \<rparr>"

definition example_catalog :: "string \<rightharpoonup> (target_health_args, target_health_result, world) tool" where
  "example_catalog = [''get_target_health'' \<mapsto> get_target_health_tool (\<lambda>is. [])]"

definition example_client :: PrometheusClient where
  "example_client =
     new_PrometheusClient \<lparr> prometheusUrl = ''http://prometheus:9090'', username = None, password = None \<rparr>"

definition connection_refused :: "'a get_outcome" where
  "connection_refused = Rejected (AxiosError ''connect ECONNREFUSED 127.0.0.1:9090'' None True)"

definition success :: "'a \<Rightarrow> 'a get_outcome" where
  "success d = Resolved 200 \<lparr> status = ''success'', data = d, errorType = None, error = None \<rparr>"

definition no_targets :: TargetsResponse where
  "no_targets = \<lparr> activeTargets = [], droppedTargets = [] \<rparr>"

definition sample_target :: "string \<Rightarrow> string \<Rightarrow> string \<Rightarrow> Target" where
  "sample_target j i h =
     \<lparr> discoveredLabels = [''__address__'' \<mapsto> i],
       labels = [''job'' \<mapsto> j, ''instance'' \<mapsto> i],
       scrapePool = j,
       scrapeUrl = ''http://'' @ i @ ''/metrics'',
       globalUrl = ''http://'' @ i @ ''/metrics'',
       lastError = (if h = ''down'' then Some ''connection refused'' else Some []),
       lastScrape = ''2025-12-31T23:59:45.000Z'',
       lastScrapeDuration = 0,
       health = h,
       scrapeInterval = ''15s'',
       scrapeTimeout = ''10s'' \<rparr>"

definition three_targets :: TargetsResponse where
  "three_targets =
     \<lparr> activeTargets =
         [sample_target ''node'' ''host1:9100'' ''up'',
          sample_target ''node'' ''host2:9100'' ''down'',
          sample_target ''blackbox'' ''probe1:9115'' ''up''],
       droppedTargets = [] \<rparr>"

text \<open>
  A backend that answers only the targets endpoint, always with the same targets, and a
  clock standing at 2026-01-01T00:00:00Z.
\<close>

definition example_world :: "TargetsResponse \<Rightarrow> world" where
  "example_world targets =
     \<lparr> instant_api = (\<lambda>log r. connection_refused),
       range_api = (\<lambda>log r. connection_refused),
       targets_api = (\<lambda>log r. success targets),
       requests = [],
       clock = (\<lambda>n. 1767225600000),
       clock_reads = 0 \<rparr>"

definition empty_matrix :: RangeQueryResult where
  "empty_matrix = \<lparr> range_resultType = ''matrix'', range_result = [] \<rparr>"

text \<open>The same deployment with a backend that answers every range query with \<open>result\<close>.\<close>

definition range_world :: "RangeQueryResult \<Rightarrow> world" where
  "range_world result = (example_world no_targets)\<lparr> range_api := (\<lambda>log r. success result) \<rparr>"

definition cpu_sample :: metric_sample where
  "cpu_sample = \<lparr> sample_metric = [''instance'' \<mapsto> ''host:9100''],
                   sample_value = (1767225600, ''12.5'') \<rparr>"

text \<open>
  A backend that answers the second instant query it receives with HTTP 200 and an
  error envelope, and every other instant query with one sample.
\<close>

definition cpu_world :: world where
  "cpu_world =
     (example_world no_targets)
       \<lparr> instant_api :=
           (\<lambda>sent r. if length sent = 1
                      then Resolved 200 \<lparr> status = ''error'',
                                          data = \<lparr> instant_resultType = [], instant_result = [] \<rparr>,
                                          errorType = Some ''timeout'',
                                          error = Some ''query timed out'' \<rparr>
                      else success \<lparr> instant_resultType = ''vector'',
                                     instant_result = [cpu_sample] \<rparr>) \<rparr>"

section \<open>Properties of the Backend Client\<close>

lemma truthy_Some: "truthy x \<longleftrightarrow> (\<exists>s. x = Some s \<and> s \<noteq> [])"
  by (cases x) (simp_all add: truthy_def)

text \<open>
  C10. Every request of the client carries basic-auth credentials exactly when both a
  username and a password are configured (present and non-empty), and then they are
  the configured pair; when exactly one of the two is set, the request carries none.
\<close>

theorem basic_auth_only_with_both:
  "(req_auth (client_get (new_PrometheusClient cfg) path params) \<noteq> None
      \<longleftrightarrow> truthy (username cfg) \<and> truthy (password cfg))
   \<and> (\<forall>a. req_auth (client_get (new_PrometheusClient cfg) path params) = Some a
          \<longrightarrow> username cfg = Some (auth_username a) \<and> password cfg = Some (auth_password a))
   \<and> ((username cfg = None) \<noteq> (password cfg = None)
          \<longrightarrow> req_auth (client_get (new_PrometheusClient cfg) path params) = None)"
  by (cases "username cfg"; cases "password cfg")
     (auto simp: client_get_def new_PrometheusClient_def truthy_def Let_def)

theorem basic_auth_only_with_both_witness:
  "req_auth (client_get (new_PrometheusClient
       \<lparr> prometheusUrl = ''http://prometheus:9090'', username = Some ''admin'', password = None \<rparr>)
     ''/api/v1/targets'' []) = None
   \<and> req_auth (client_get (new_PrometheusClient
       \<lparr> prometheusUrl = ''http://prometheus:9090'', username = Some ''admin'', password = Some ''pw'' \<rparr>)
     ''/api/v1/targets'' []) = Some \<lparr> auth_username = ''admin'', auth_password = ''pw'' \<rparr>"
  using basic_auth_only_with_both
    [of "\<lparr> prometheusUrl = ''http://prometheus:9090'', username = Some ''admin'', password = None \<rparr>"
        "''/api/v1/targets''" "[]"]
    basic_auth_only_with_both
    [of "\<lparr> prometheusUrl = ''http://prometheus:9090'', username = Some ''admin'', password = Some ''pw'' \<rparr>"
        "''/api/v1/targets''" "[]"]
  by (auto simp: truthy_def)

section \<open>Properties of the dispatcher\<close>



text \<open>
  C5. For every name that is not a key of the catalog and every argument object, the
  dispatcher returns a result with \<open>isError\<close> set whose text contains the name, and
  leaves the world as it was: no handler runs and no request is sent to the backend.
\<close>

theorem unknown_tool_is_error:
  assumes "name \<notin> dom allTools"
  shows "isError (fst (call_tool allTools stringify c name args w))
       \<and> sublist name (content_text (fst (call_tool allTools stringify c name args w)))
       \<and> snd (call_tool allTools stringify c name args w) = w"
proof (cases "has_property allTools name")
  case False
  moreover have "sublist name (''Unknown tool: '' @ name)"
    by (rule sublist_append_leftI)
  ultimately show ?thesis
    by (simp add: call_tool_def error_response_def)
next
  case True
  moreover have "allTools name = None"
    using assms by auto
  moreover have "sublist name (''Error executing '' @ name @ '': '' @ ''tool.handler is not a function'')"
    by (rule sublist_appendI)
  ultimately show ?thesis
    by (simp add: call_tool_def error_response_def)
qed

theorem unknown_tool_is_error_witness:
  "isError (fst (call_tool example_catalog (\<lambda>r. []) example_client ''restart_server''
                   (Some Map.empty) (example_world no_targets)))
   \<and> sublist ''restart_server''
        (content_text (fst (call_tool example_catalog (\<lambda>r. []) example_client ''restart_server''
                   (Some Map.empty) (example_world no_targets))))
   \<and> snd (call_tool example_catalog (\<lambda>r. []) example_client ''restart_server''
                   (Some Map.empty) (example_world no_targets)) = example_world no_targets"
  using unknown_tool_is_error
    [of "''restart_server''" example_catalog "\<lambda>r. []" example_client
        "Some Map.empty" "example_world no_targets"]
  by (simp add: example_catalog_def)

section \<open>Properties of the health tools\<close>

lemma getTargets_success:
  assumes "targets_api w (requests w) (getTargets_request c) = Resolved code response"
    and "status response = ''success''"
  shows "getTargets c w = (Inr (data response), send (getTargets_request c) w)"
  using assms by (simp add: getTargets_def getTargets_result_def unwrap_def Let_def)

text \<open>
  C7. The target lookup throws the missing-filter error, before any request, when
  neither a job nor an instance is supplied (present and non-empty). When at least one
  is supplied, the backend answers the targets request with a successful envelope, and
  every active target differs from a supplied filter in its \<open>job\<close> or \<open>instance\<close>
  label, the lookup returns \<open>{found: false}\<close> with its message and does not throw.
\<close>

theorem target_lookup_missing_filter_and_no_match:
  "(\<not> truthy (arg_job args) \<and> \<not> truthy (arg_instance args) \<longrightarrow>
      get_target_health_handler c args w
        = (Inl (Error ''At least one of job or instance must be specified''), w))
   \<and> ((truthy (arg_job args) \<or> truthy (arg_instance args))
       \<and> targets_api w (requests w) (getTargets_request c) = Resolved code response
       \<and> status response = ''success''
       \<and> (\<forall>t \<in> set (activeTargets (data response)).
             (truthy (arg_job args) \<and> labels t ''job'' \<noteq> arg_job args)
           \<or> (truthy (arg_instance args) \<and> labels t ''instance'' \<noteq> arg_instance args)) \<longrightarrow>
      get_target_health_handler c args w
        = (Inr (NotFound ''No matching targets found''), send (getTargets_request c) w))"
proof (intro conjI impI)
  assume "\<not> truthy (arg_job args) \<and> \<not> truthy (arg_instance args)"
  then show "get_target_health_handler c args w
        = (Inl (Error ''At least one of job or instance must be specified''), w)"
    by (simp add: get_target_health_handler_def)
next
  assume h: "(truthy (arg_job args) \<or> truthy (arg_instance args))
       \<and> targets_api w (requests w) (getTargets_request c) = Resolved code response
       \<and> status response = ''success''
       \<and> (\<forall>t \<in> set (activeTargets (data response)).
             (truthy (arg_job args) \<and> labels t ''job'' \<noteq> arg_job args)
           \<or> (truthy (arg_instance args) \<and> labels t ''instance'' \<noteq> arg_instance args))"
  then have got: "getTargets c w = (Inr (data response), send (getTargets_request c) w)"
    by (simp add: getTargets_success)
  have "\<forall>t \<in> set (activeTargets (data response)). \<not> target_selected args t"
    using h by (auto simp: target_selected_def)
  then have "filter (target_selected args) (activeTargets (data response)) = []"
    by (simp add: filter_empty_conv)
  then show "get_target_health_handler c args w
        = (Inr (NotFound ''No matching targets found''), send (getTargets_request c) w)"
    using h got by (auto simp: get_target_health_handler_def)
qed

theorem target_lookup_missing_filter_and_no_match_witness:
  "get_target_health_handler example_client \<lparr> arg_job = None, arg_instance = None \<rparr>
       (example_world three_targets)
     = (Inl (Error ''At least one of job or instance must be specified''), example_world three_targets)
   \<and> get_target_health_handler example_client
       \<lparr> arg_job = Some ''node'', arg_instance = Some ''host9:9100'' \<rparr> (example_world three_targets)
     = (Inr (NotFound ''No matching targets found''),
        send (getTargets_request example_client) (example_world three_targets))"
  using target_lookup_missing_filter_and_no_match
    [of "\<lparr> arg_job = None, arg_instance = None \<rparr>" example_client "example_world three_targets"]
    target_lookup_missing_filter_and_no_match
    [of "\<lparr> arg_job = Some ''node'', arg_instance = Some ''host9:9100'' \<rparr>" example_client
        "example_world three_targets" 200
        "\<lparr> status = ''success'', data = three_targets, errorType = None, error = None \<rparr>"]
  by (simp add: truthy_def example_world_def success_def three_targets_def sample_target_def)

text \<open>
  C8. The list-targets handler returns the same outcome for the health filter \<open>all\<close>
  as for no health filter, and the schema turns a missing \<open>health\<close> argument into
  \<open>all\<close>. Whenever the handler returns, its summary counts \<open>total\<close>, \<open>up\<close>, \<open>down\<close> and
  \<open>unknown\<close> are taken over all active targets the backend returned, whatever the
  filter, and with the filter \<open>all\<close> or none it lists every active target.
\<close>

theorem list_targets_all_is_no_filter:
  "list_targets_handler c \<lparr> arg_health = Some ''all'' \<rparr> w
     = list_targets_handler c \<lparr> arg_health = None \<rparr> w
   \<and> (obj ''health'' = None \<longrightarrow>
        list_targets_schema message (Some obj) = ParseSuccess \<lparr> arg_health = Some ''all'' \<rparr>)
   \<and> (list_targets_handler c args w = (Inr r, w') \<longrightarrow>
        (\<exists>targets. getTargets c w = (Inr targets, w')
           \<and> total (summary r) = length (activeTargets targets)
           \<and> up (summary r) = length (filter (\<lambda>t. health t = ''up'') (activeTargets targets))
           \<and> down (summary r) = length (filter (\<lambda>t. health t = ''down'') (activeTargets targets))
           \<and> unknown (summary r) = length (filter (\<lambda>t. health t = ''unknown'') (activeTargets targets))
           \<and> (arg_health args = Some ''all'' \<or> arg_health args = None \<longrightarrow>
                listed_targets r = map target_row_of (activeTargets targets))))"
proof (intro conjI impI)
  show "list_targets_handler c \<lparr> arg_health = Some ''all'' \<rparr> w
     = list_targets_handler c \<lparr> arg_health = None \<rparr> w"
    by (simp add: list_targets_handler_def truthy_def split: prod.split sum.split)
next
  assume "obj ''health'' = None"
  then show "list_targets_schema message (Some obj) = ParseSuccess \<lparr> arg_health = Some ''all'' \<rparr>"
    by (simp add: list_targets_schema_def optional_enum_default_def)
next
  assume ret: "list_targets_handler c args w = (Inr r, w')"
  obtain res w'' where got: "getTargets c w = (res, w'')"
    by (cases "getTargets c w")
  show "\<exists>targets. getTargets c w = (Inr targets, w')
           \<and> total (summary r) = length (activeTargets targets)
           \<and> up (summary r) = length (filter (\<lambda>t. health t = ''up'') (activeTargets targets))
           \<and> down (summary r) = length (filter (\<lambda>t. health t = ''down'') (activeTargets targets))
           \<and> unknown (summary r) = length (filter (\<lambda>t. health t = ''unknown'') (activeTargets targets))
           \<and> (arg_health args = Some ''all'' \<or> arg_health args = None \<longrightarrow>
                listed_targets r = map target_row_of (activeTargets targets))"
  proof (cases res)
    case (Inl e)
    with ret got show ?thesis
      by (simp add: list_targets_handler_def)
  next
    case (Inr targets)
    with ret got have "w'' = w'" and
      r: "r = \<lparr> summary =
                 \<lparr> total = length (activeTargets targets),
                   up = length (filter (\<lambda>t. health t = ''up'') (activeTargets targets)),
                   down = length (filter (\<lambda>t. health t = ''down'') (activeTargets targets)),
                   unknown = length (filter (\<lambda>t. health t = ''unknown'') (activeTargets targets)),
                   dropped = length (droppedTargets targets) \<rparr>,
               listed_targets = map target_row_of
                 (if truthy (arg_health args) \<and> arg_health args \<noteq> Some ''all''
                  then filter (\<lambda>t. Some (health t) = arg_health args) (activeTargets targets)
                  else activeTargets targets) \<rparr>"
      by (simp_all add: list_targets_handler_def Let_def)
    with got Inr show ?thesis
      by (auto simp: truthy_def)
  qed
qed

theorem list_targets_all_is_no_filter_witness:
  "list_targets_handler example_client \<lparr> arg_health = Some ''all'' \<rparr> (example_world three_targets)
     = list_targets_handler example_client \<lparr> arg_health = None \<rparr> (example_world three_targets)
   \<and> list_targets_schema (\<lambda>is. []) (Some Map.empty) = ParseSuccess \<lparr> arg_health = Some ''all'' \<rparr>
   \<and> list_targets_handler example_client \<lparr> arg_health = Some ''all'' \<rparr> (example_world three_targets)
     = (Inr \<lparr> summary = \<lparr> total = 3, up = 2, down = 1, unknown = 0, dropped = 0 \<rparr>,
              listed_targets = map target_row_of (activeTargets three_targets) \<rparr>,
        send (getTargets_request example_client) (example_world three_targets))"
proof -
  let ?w = "example_world three_targets"
  let ?r = "\<lparr> summary = \<lparr> total = 3, up = 2, down = 1, unknown = 0, dropped = 0 \<rparr>,
             listed_targets = map target_row_of (activeTargets three_targets) \<rparr>"
  have got: "getTargets example_client ?w
               = (Inr three_targets, send (getTargets_request example_client) ?w)"
    by (simp add: getTargets_def getTargets_result_def unwrap_def example_world_def success_def)
  have run: "list_targets_handler example_client \<lparr> arg_health = Some ''all'' \<rparr> ?w
      = (Inr ?r, send (getTargets_request example_client) ?w)"
    by (simp add: list_targets_handler_def got truthy_def)
       (simp add: three_targets_def sample_target_def)
  note general = list_targets_all_is_no_filter
      [of example_client ?w Map.empty "\<lambda>is. []" "\<lparr> arg_health = Some ''all'' \<rparr>" ?r
          "send (getTargets_request example_client) ?w"]
  have same: "list_targets_handler example_client \<lparr> arg_health = Some ''all'' \<rparr> ?w
       = list_targets_handler example_client \<lparr> arg_health = None \<rparr> ?w"
    by (rule general [THEN conjunct1])
  have default: "list_targets_schema (\<lambda>is. []) (Some Map.empty)
       = ParseSuccess \<lparr> arg_health = Some ''all'' \<rparr>"
    by (rule general [THEN conjunct2, THEN conjunct1, THEN mp]) simp
  have counted: "\<exists>targets. getTargets example_client ?w
           = (Inr targets, send (getTargets_request example_client) ?w)
       \<and> total (summary ?r) = length (activeTargets targets)"
    using general [THEN conjunct2, THEN conjunct2, THEN mp, OF run] by blast
  from same default counted run show ?thesis
    by blast
qed

section \<open>Properties of the envelope check\<close>

lemma unwrap_not_success:
  assumes "status response \<noteq> ''success''"
  shows "unwrap c what proj (Resolved code response)
           = Inl (Error (what @ '': '' @ template (error response)))"
  using assms by (simp add: unwrap_def)

text \<open>
  C1. A 2xx response whose envelope has status \<open>error\<close>, error text \<open>boom\<close> and error
  type \<open>bad_data\<close> makes \<open>queryInstant\<close> throw an \<open>Error\<close> whose message is
  \<open>Query failed: boom\<close>: the error text is there, the error type is not.
  \<open>handleError\<close> on a non-2xx response with the same body puts both in the message.
  \<open>testConnection\<close> on the same 2xx response reports a connection and throws nothing.
\<close>

theorem envelope_error_message_lacks_errorType:
  "queryInstant_result c
      (Resolved 200 \<lparr> status = ''error'', data = d, errorType = Some ''bad_data'', error = Some ''boom'' \<rparr>)
     = Inl (Error ''Query failed: boom'')
   \<and> sublist ''boom'' ''Query failed: boom''
   \<and> \<not> sublist ''bad_data'' ''Query failed: boom''
   \<and> queryInstant_result c
      (Rejected (AxiosError ''Request failed with status code 400''
         (Some \<lparr> response_status = 400, data_error = Some ''boom'', data_errorType = Some ''bad_data'' \<rparr>)
         True))
     = (Inl (Error ''Prometheus API error: boom (bad_data)'') :: js_error + 'a)
   \<and> testConnection_result c version
      (Resolved 200 \<lparr> status = ''error'', data = d, errorType = Some ''bad_data'', error = Some ''boom'' \<rparr>)
      fallback
     = Inr \<lparr> conn_status = ''connected'', conn_version = version d \<rparr>"
proof -
  have "sublist ''boom'' ''Query failed: boom''"
    by code_simp
  moreover have "\<not> sublist ''bad_data'' ''Query failed: boom''"
    by code_simp
  ultimately show ?thesis
    by (simp add: queryInstant_result_def unwrap_def template_def truthy_def
          testConnection_result_def)
qed

section \<open>Properties of the node-exporter helper\<close>

lemma node_queries_cpu:
  \<open>node_queries ''cpu'' i r =
     [(''cpuUsagePercent'', ''100 - (avg by (instance) (rate(node_cpu_seconds_total{instance="'' @ i @ ''",mode="idle"}['' @ r @ ''])) * 100)''),
      (''cpuUserPercent'', ''avg by (instance) (rate(node_cpu_seconds_total{instance="'' @ i @ ''",mode="user"}['' @ r @ ''])) * 100''),
      (''cpuSystemPercent'', ''avg by (instance) (rate(node_cpu_seconds_total{instance="'' @ i @ ''",mode="system"}['' @ r @ ''])) * 100''),
      (''cpuIowaitPercent'', ''avg by (instance) (rate(node_cpu_seconds_total{instance="'' @ i @ ''",mode="iowait"}['' @ r @ ''])) * 100'')]\<close>
  by (simp add: node_queries_def assign_def)

lemma run_four_queries:
  "distinct [n1, n2, n3, n4] \<Longrightarrow>
   run_queries c [(n1, q1), (n2, q2), (n3, q3), (n4, q4)] [] w =
     (let (r1, w1) = queryInstant c q1 None w;
          (r2, w2) = queryInstant c q2 None w1;
          (r3, w3) = queryInstant c q3 None w2;
          (r4, w4) = queryInstant c q4 None w3
      in ([(n1, sub_result_of r1), (n2, sub_result_of r2),
           (n3, sub_result_of r3), (n4, sub_result_of r4)], w4))"
  by (auto simp: assign_def split: prod.split)

lemma cpu_world_simps:
  "requests cpu_world = []"
  "instant_api (send r w) = instant_api w"
  "requests (send r w) = requests w @ [r]"
  "instant_api cpu_world sent r =
     (if length sent = 1
      then Resolved 200 \<lparr> status = ''error'',
                          data = \<lparr> instant_resultType = [], instant_result = [] \<rparr>,
                          errorType = Some ''timeout'', error = Some ''query timed out'' \<rparr>
      else success \<lparr> instant_resultType = ''vector'', instant_result = [cpu_sample] \<rparr>)"
  by (simp_all add: cpu_world_def example_world_def send_def)

text \<open>
  C6. For the category \<open>cpu\<close> the helper synthesizes exactly the four CPU sub-queries,
  in this order and with these texts. It runs one instant query for each, in turn, and
  always returns. Under each sub-query's name stands what that sub-query's own call
  gave, whatever the other calls gave: when the call threw an \<open>Error\<close> with message
  \<open>m\<close>, the object \<open>{error: m}\<close> (and \<open>{error: 'Query failed'}\<close> for a thrown value
  that is not an \<open>Error\<close>); when it returned, one row per sample with the sample's
  labels and its value.
\<close>

theorem node_exporter_cpu_partial_failure:
  \<open>\<exists>q1 q2 q3 q4.
      q1 = ''100 - (avg by (instance) (rate(node_cpu_seconds_total{instance="'' @ i
             @ ''",mode="idle"}['' @ or_default tr ''5m'' @ ''])) * 100)''
    \<and> q2 = ''avg by (instance) (rate(node_cpu_seconds_total{instance="'' @ i
             @ ''",mode="user"}['' @ or_default tr ''5m'' @ ''])) * 100''
    \<and> q3 = ''avg by (instance) (rate(node_cpu_seconds_total{instance="'' @ i
             @ ''",mode="system"}['' @ or_default tr ''5m'' @ ''])) * 100''
    \<and> q4 = ''avg by (instance) (rate(node_cpu_seconds_total{instance="'' @ i
             @ ''",mode="iowait"}['' @ or_default tr ''5m'' @ ''])) * 100''
    \<and> node_queries ''cpu'' i (or_default tr ''5m'')
          = [(''cpuUsagePercent'', q1), (''cpuUserPercent'', q2),
             (''cpuSystemPercent'', q3), (''cpuIowaitPercent'', q4)]
    \<and> query_node_exporter_handler c
          \<lparr> arg_instance_name = i, arg_metric = ''cpu'', arg_range = tr \<rparr> w
        = (let (r1, w1) = queryInstant c q1 None w;
               (r2, w2) = queryInstant c q2 None w1;
               (r3, w3) = queryInstant c q3 None w2;
               (r4, w4) = queryInstant c q4 None w3
           in (Inr \<lparr> ne_instance = i, ne_timeRange = or_default tr ''5m'',
                     metrics = [(''cpuUsagePercent'', sub_result_of r1),
                                (''cpuUserPercent'', sub_result_of r2),
                                (''cpuSystemPercent'', sub_result_of r3),
                                (''cpuIowaitPercent'', sub_result_of r4)] \<rparr>, w4))
    \<and> (\<forall>m. sub_result_of (Inl (Error m)) = ErrorObject m)
    \<and> (\<forall>m r q. sub_result_of (Inl (AxiosError m r q)) = ErrorObject m)
    \<and> (\<forall>m code. sub_result_of (Inl (AxiosErrorNullBody m code)) = ErrorObject m)
    \<and> (\<forall>s. sub_result_of (Inl (NonError s)) = ErrorObject ''Query failed'')
    \<and> (\<forall>t samples.
          sub_result_of (Inr \<lparr> instant_resultType = t, instant_result = samples \<rparr>)
            = Rows (map (\<lambda>r. \<lparr> row_labels = sample_metric r, row_value = snd (sample_value r) \<rparr>)
                      samples))\<close>
proof -
  have names: "distinct [''cpuUsagePercent'', ''cpuUserPercent'', ''cpuSystemPercent'', ''cpuIowaitPercent'']"
    by simp
  have handler: "query_node_exporter_handler c
          \<lparr> arg_instance_name = i, arg_metric = ''cpu'', arg_range = tr \<rparr> w
        = (let (results, w') = run_queries c (node_queries ''cpu'' i (or_default tr ''5m'')) [] w
           in (Inr \<lparr> ne_instance = i, ne_timeRange = or_default tr ''5m'', metrics = results \<rparr>, w'))"
    by (simp add: query_node_exporter_handler_def Let_def)
  have rows: "\<And>t samples.
          sub_result_of (Inr \<lparr> instant_resultType = t, instant_result = samples \<rparr>)
            = Rows (map (\<lambda>r. \<lparr> row_labels = sample_metric r, row_value = snd (sample_value r) \<rparr>)
                      samples)"
    by (simp add: sub_result_of_def sample_row_of_def)
  have errors: "\<And>m. sub_result_of (Inl (Error m)) = ErrorObject m"
    "\<And>m r q. sub_result_of (Inl (AxiosError m r q)) = ErrorObject m"
    "\<And>m code. sub_result_of (Inl (AxiosErrorNullBody m code)) = ErrorObject m"
    "\<And>s. sub_result_of (Inl (NonError s)) = ErrorObject ''Query failed''"
    by (simp_all add: sub_result_of_def)
  show ?thesis
    unfolding handler node_queries_cpu run_four_queries [OF names]
    by (simp add: rows errors Let_def split: prod.split)
qed


text \<open>
  The instance \<open>host:9100\<close> with the default range, on a backend whose answer to the
  second sub-query is an error envelope: three keys hold rows and \<open>cpuUserPercent\<close>
  holds the error's message.
\<close>

theorem node_exporter_cpu_partial_failure_witness:
  \<open>fst (query_node_exporter_handler example_client
          \<lparr> arg_instance_name = ''host:9100'', arg_metric = ''cpu'', arg_range = None \<rparr> cpu_world)
     = Inr \<lparr> ne_instance = ''host:9100'', ne_timeRange = ''5m'',
             metrics =
               [(''cpuUsagePercent'',
                   Rows [\<lparr> row_labels = [''instance'' \<mapsto> ''host:9100''], row_value = ''12.5'' \<rparr>]),
                (''cpuUserPercent'', ErrorObject ''Query failed: query timed out''),
                (''cpuSystemPercent'',
                   Rows [\<lparr> row_labels = [''instance'' \<mapsto> ''host:9100''], row_value = ''12.5'' \<rparr>]),
                (''cpuIowaitPercent'',
                   Rows [\<lparr> row_labels = [''instance'' \<mapsto> ''host:9100''], row_value = ''12.5'' \<rparr>])] \<rparr>
   \<and> map req_params (requests (snd (query_node_exporter_handler example_client
          \<lparr> arg_instance_name = ''host:9100'', arg_metric = ''cpu'', arg_range = None \<rparr> cpu_world)))
     = [[(''query'', ''100 - (avg by (instance) (rate(node_cpu_seconds_total{instance="host:9100",mode="idle"}[5m])) * 100)'')],
        [(''query'', ''avg by (instance) (rate(node_cpu_seconds_total{instance="host:9100",mode="user"}[5m])) * 100'')],
        [(''query'', ''avg by (instance) (rate(node_cpu_seconds_total{instance="host:9100",mode="system"}[5m])) * 100'')],
        [(''query'', ''avg by (instance) (rate(node_cpu_seconds_total{instance="host:9100",mode="iowait"}[5m])) * 100'')]]\<close>
proof -
  have call: "\<And>q w. queryInstant example_client q None w
      = (queryInstant_result example_client
           (instant_api w (requests w) (queryInstant_request example_client q None)),
         send (queryInstant_request example_client q None) w)"
    by (simp add: queryInstant_def Let_def)
  have params: "\<And>q. req_params (queryInstant_request example_client q None) = [(''query'', q)]"
    by (simp add: queryInstant_request_def client_get_def)
  have failed: "queryInstant_result example_client
      (Resolved 200 \<lparr> status = ''error'',
                          data = \<lparr> instant_resultType = [], instant_result = [] \<rparr>,
                          errorType = Some ''timeout'', error = Some ''query timed out'' \<rparr>)
     = Inl (Error ''Query failed: query timed out'')"
    by (simp add: queryInstant_result_def unwrap_def template_def)
  have answered: "queryInstant_result example_client
      (success \<lparr> instant_resultType = ''vector'', instant_result = [cpu_sample] \<rparr>)
     = Inr \<lparr> instant_resultType = ''vector'', instant_result = [cpu_sample] \<rparr>"
    by (simp add: queryInstant_result_def unwrap_def success_def)
  from node_exporter_cpu_partial_failure
    [of "''host:9100''" None example_client cpu_world]
  obtain q1 q2 q3 q4 where
    q: \<open>q1 = ''100 - (avg by (instance) (rate(node_cpu_seconds_total{instance="'' @ ''host:9100''
             @ ''",mode="idle"}['' @ or_default None ''5m'' @ ''])) * 100)''\<close>
       \<open>q2 = ''avg by (instance) (rate(node_cpu_seconds_total{instance="'' @ ''host:9100''
             @ ''",mode="user"}['' @ or_default None ''5m'' @ ''])) * 100''\<close>
       \<open>q3 = ''avg by (instance) (rate(node_cpu_seconds_total{instance="'' @ ''host:9100''
             @ ''",mode="system"}['' @ or_default None ''5m'' @ ''])) * 100''\<close>
       \<open>q4 = ''avg by (instance) (rate(node_cpu_seconds_total{instance="'' @ ''host:9100''
             @ ''",mode="iowait"}['' @ or_default None ''5m'' @ ''])) * 100''\<close>
    and run: "query_node_exporter_handler example_client
          \<lparr> arg_instance_name = ''host:9100'', arg_metric = ''cpu'', arg_range = None \<rparr> cpu_world
        = (let (r1, w1) = queryInstant example_client q1 None cpu_world;
               (r2, w2) = queryInstant example_client q2 None w1;
               (r3, w3) = queryInstant example_client q3 None w2;
               (r4, w4) = queryInstant example_client q4 None w3
           in (Inr \<lparr> ne_instance = ''host:9100'', ne_timeRange = or_default None ''5m'',
                     metrics = [(''cpuUsagePercent'', sub_result_of r1),
                                (''cpuUserPercent'', sub_result_of r2),
                                (''cpuSystemPercent'', sub_result_of r3),
                                (''cpuIowaitPercent'', sub_result_of r4)] \<rparr>, w4))"
    and err: "\<forall>m. sub_result_of (Inl (Error m)) = ErrorObject m"
    and rows: "\<forall>t samples.
          sub_result_of (Inr \<lparr> instant_resultType = t, instant_result = samples \<rparr>)
            = Rows (map (\<lambda>r. \<lparr> row_labels = sample_metric r, row_value = snd (sample_value r) \<rparr>)
                      samples)"
    by blast
  have range: "or_default None ''5m'' = ''5m''"
    by (simp add: or_default_def truthy_def)
  show ?thesis
    unfolding run call Let_def prod.case cpu_world_simps
    by (simp add: failed answered [unfolded cpu_sample_def] err rows params range q
          cpu_sample_def cpu_world_simps)
qed

section \<open>Properties of the byte-size rendering\<close>


lemma round_half_even_int [simp]: "round_half_even (of_int m) = m"
  by (simp add: round_half_even_def)
























section \<open>Properties of relative time expressions\<close>

lemma relative_match_snoc:
  "ds \<noteq> [] \<Longrightarrow> list_all is_digit ds \<Longrightarrow> is_unit u \<Longrightarrow> relative_match (ds @ [u]) = Some (ds, u)"
  by (simp add: relative_match_def)




lemma multipliers_dom: "multipliers u = Some k \<Longrightarrow> is_unit u"
  by (auto simp: multipliers_def is_unit_def split: if_splits)

lemma relative_ms_unit: "multipliers u = Some k \<Longrightarrow> relative_ms (ds, u) = Some (parseInt ds * k)"
  by (simp add: relative_ms_def)

lemma Date_toISOString_int:
  "\<bar>real_of_int t\<bar> \<le> 8640000000000000 \<Longrightarrow> Date_toISOString (real_of_int t) = Inr (iso_string t)"
  by (simp add: Date_toISOString_def)

lemma ago_in_range:
  assumes "\<bar>real_of_int (clock w (clock_reads w) - ms)\<bar> \<le> 8640000000000000"
  shows "ago (Some ms) w
           = (Inr (iso_string (clock w (clock_reads w) - ms)), w\<lparr> clock_reads := Suc (clock_reads w) \<rparr>)"
  using assms by (simp add: ago_def Date_now_def Date_toISOString_int del: of_int_diff)

lemma requests_queryRange:
  "requests (snd (queryRange c q s e st w)) = requests w @ [queryRange_request c q s e st]"
  by (simp add: queryRange_def send_def Let_def)

lemma history_step_cases:
  "history_step ms = (if ms \<le> 86400000 then ''1m'' else if ms \<le> 604800000 then ''5m'' else ''15m'')"
  by (simp add: history_step_def)

lemma alert_history_requests:
  assumes "relative_match (or_default (arg_timeRange args) ''1h'') = Some m"
    and "relative_ms m = Some ms"
    and "\<bar>real_of_int (clock w (clock_reads w) - ms)\<bar> \<le> 8640000000000000"
  shows \<open>requests (snd (get_alert_history_handler c args w))
         = requests w @
           [queryRange_request c
              (if truthy (arg_alertname args)
               then ''ALERTS{alertname="'' @ template (arg_alertname args) @ ''"}'' else ''ALERTS'')
              (iso_string (clock w (clock_reads w) - ms))
              (iso_string (clock w (Suc (clock_reads w))))
              (history_step ms)]\<close>
proof -
  let ?w1 = "w\<lparr> clock_reads := Suc (clock_reads w) \<rparr>"
  let ?w2 = "?w1\<lparr> clock_reads := Suc (clock_reads ?w1) \<rparr>"
  define query where \<open>query = (if truthy (arg_alertname args)
               then ''ALERTS{alertname="'' @ template (arg_alertname args) @ ''"}'' else ''ALERTS'')\<close>
  define start where "start = iso_string (clock w (clock_reads w) - ms)"
  define ending where "ending = iso_string (clock w (Suc (clock_reads w)))"
  have e: "now_iso ?w1 = (ending, ?w2)"
    by (simp add: now_iso_def Date_now_def ending_def)
  have a: "ago (Some ms) w = (Inr start, ?w1)"
    unfolding start_def by (rule ago_in_range [OF assms(3)])
  obtain res w3 where q: "queryRange c query start ending (history_step ms) ?w2 = (res, w3)"
    by (cases "queryRange c query start ending (history_step ms) ?w2")
  have w3: "requests w3 = requests w @ [queryRange_request c query start ending (history_step ms)]"
    using requests_queryRange [of c query start ending "history_step ms" ?w2] q by simp
  have "snd (get_alert_history_handler c args w) = w3"
    unfolding get_alert_history_handler_def Let_def assms(1) assms(2) option.case a
      prod.case sum.case e query_def [symmetric] q
    by (simp split: sum.split)
  then show ?thesis
    using w3 unfolding query_def start_def ending_def by simp
qed














lemma range_world_simps:
  "clock (range_world result) n = 1767225600000"
  "clock_reads (range_world result) = 0"
  "requests (range_world result) = []"
  "range_api (range_world result) sent r = success result"
  by (simp_all add: range_world_def example_world_def)





text \<open>
  C4. For every alert-history call whose time range (the default \<open>1h\<close> when none is
  given) is digits and a unit letter, with \<open>ms\<close> the digits' number times the unit's
  multiplier, and whose start is a valid date, the step of the range query it sends is
  \<open>1m\<close> when \<open>ms \<le> 86400000\<close>, \<open>5m\<close> when \<open>86400000 < ms \<le> 604800000\<close>, and \<open>15m\<close>
  when \<open>ms > 604800000\<close>.
\<close>

theorem alert_history_step_policy:
  assumes "or_default (arg_timeRange args) ''1h'' = ds @ [u]"
    and "ds \<noteq> []" and "list_all is_digit ds" and "multipliers u = Some k"
    and "ms = parseInt ds * k"
    and "\<bar>real_of_int (clock w (clock_reads w) - ms)\<bar> \<le> 8640000000000000"
  shows "\<exists>query start ending.
           requests (snd (get_alert_history_handler c args w))
             = requests w @
               [queryRange_request c query start ending
                  (if ms \<le> 86400000 then ''1m'' else if ms \<le> 604800000 then ''5m'' else ''15m'')]"
proof -
  have m: "relative_match (or_default (arg_timeRange args) ''1h'') = Some (ds, u)"
    unfolding assms(1) using assms(2-4) by (simp add: relative_match_snoc multipliers_dom)
  have parsed: "relative_ms (ds, u) = Some ms"
    using assms(4,5) by (simp add: relative_ms_unit)
  show ?thesis
    unfolding alert_history_requests [OF m parsed assms(6), of c] history_step_cases by blast
qed

theorem alert_history_step_policy_witness:
  "map (\<lambda>r. map_of (req_params r) ''step'')
     (requests (snd (get_alert_history_handler example_client
                       \<lparr> arg_alertname = None, arg_timeRange = Some ''1d'' \<rparr> (range_world empty_matrix))))
     = [Some ''1m'']
   \<and> map (\<lambda>r. map_of (req_params r) ''step'')
     (requests (snd (get_alert_history_handler example_client
                       \<lparr> arg_alertname = None, arg_timeRange = Some ''7d'' \<rparr> (range_world empty_matrix))))
     = [Some ''5m'']
   \<and> map (\<lambda>r. map_of (req_params r) ''step'')
     (requests (snd (get_alert_history_handler example_client
                       \<lparr> arg_alertname = None, arg_timeRange = Some ''8d'' \<rparr> (range_world empty_matrix))))
     = [Some ''15m'']"
proof -
  let ?w = "range_world empty_matrix"
  have step: "\<And>c q s e st. map_of (req_params (queryRange_request c q s e st)) ''step'' = Some st"
    by (simp add: queryRange_request_def client_get_def)
  have digits: "parseInt ''1'' = 1" "parseInt ''7'' = 7" "parseInt ''8'' = 8"
    by (simp_all add: parseInt_def digit_value_def)
  have day: "multipliers (CHR ''d'') = Some 86400000"
    by (simp add: multipliers_def)
  have given: "\<And>t. t \<noteq> [] \<Longrightarrow> or_default (Some t) ''1h'' = t"
    by (simp add: or_default_def truthy_def template_def)
  from alert_history_step_policy
    [of "\<lparr> arg_alertname = None, arg_timeRange = Some ''1d'' \<rparr>" "''1''" "CHR ''d''" 86400000
        86400000 ?w example_client]
  obtain q1 s1 e1 where one:
    "requests (snd (get_alert_history_handler example_client
                      \<lparr> arg_alertname = None, arg_timeRange = Some ''1d'' \<rparr> ?w))
       = requests ?w @ [queryRange_request example_client q1 s1 e1 ''1m'']"
    by (auto simp: given digits day is_digit_def range_world_simps)
  from alert_history_step_policy
    [of "\<lparr> arg_alertname = None, arg_timeRange = Some ''7d'' \<rparr>" "''7''" "CHR ''d''" 86400000
        604800000 ?w example_client]
  obtain q7 s7 e7 where seven:
    "requests (snd (get_alert_history_handler example_client
                      \<lparr> arg_alertname = None, arg_timeRange = Some ''7d'' \<rparr> ?w))
       = requests ?w @ [queryRange_request example_client q7 s7 e7 ''5m'']"
    by (auto simp: given digits day is_digit_def range_world_simps)
  from alert_history_step_policy
    [of "\<lparr> arg_alertname = None, arg_timeRange = Some ''8d'' \<rparr>" "''8''" "CHR ''d''" 86400000
        691200000 ?w example_client]
  obtain q8 s8 e8 where eight:
    "requests (snd (get_alert_history_handler example_client
                      \<lparr> arg_alertname = None, arg_timeRange = Some ''8d'' \<rparr> ?w))
       = requests ?w @ [queryRange_request example_client q8 s8 e8 ''15m'']"
    by (auto simp: given digits day is_digit_def range_world_simps)
  show ?thesis
    unfolding one seven eight by (simp add: step range_world_simps)
qed

end
